theory Spec2Isabelle
  imports Complex_Main "HOL-Library.Sublist"
begin

section \<open>Dialectica: a shallow embedding of the two chat scripts\<close>

text \<open>
  The repository holds two Streamlit scripts, \<^verbatim>\<open>sl_llamachat.py\<close> and
  \<^verbatim>\<open>sl_llm_philosopher.py\<close>. Both define \<^verbatim>\<open>generate_response\<close>,
  \<^verbatim>\<open>load_questions\<close>, \<^verbatim>\<open>display_chat_history\<close>, \<^verbatim>\<open>build_prompt\<close>
  and \<^verbatim>\<open>main\<close>. Where the two definitions differ, the embedding has one constant per
  script, prefixed \<open>llamachat_\<close> or \<open>philosopher_\<close>; where they are the same text, one
  constant stands for both.

  Python strings are modelled as \<^typ>\<open>string\<close>: the model covers text whose code points
  are below 256. Exceptions are values of the type \<open>exn\<close>; a function that may raise
  returns \<open>exn + 'a\<close>. Effects (clock reads, calls of the model backend, log lines, page
  output) are appended to a trace of events.
\<close>

subsection \<open>Python values\<close>

datatype exn =
    Exception string
  | TypeError string
  | KeyError string
  | IndexError string
  | FileNotFoundError string
  | AttributeError string

text \<open>\<^verbatim>\<open>str(e)\<close>, as the f-string of the log line renders an exception; a
  \<^verbatim>\<open>KeyError\<close> prints the repr of its key.\<close>

fun exn_str :: "exn \<Rightarrow> string" where
  "exn_str (Exception m) = m"
| "exn_str (TypeError m) = m"
| "exn_str (KeyError k) = [CHR 0x27] @ k @ [CHR 0x27]"
| "exn_str (IndexError m) = m"
| "exn_str (FileNotFoundError m) = m"
| "exn_str (AttributeError m) = m"

text \<open>The values stored in a result: strings, floats (the elapsed time) and ints (the
  zeros of the failure tuple).\<close>

datatype atom = VStr string | VFloat real | VInt int

text \<open>What \<^verbatim>\<open>generate_response\<close> returns: a dict (keys in insertion order) or a
  tuple.\<close>

datatype result = Dict "(string \<times> atom) list" | Tuple "atom list"

text \<open>\<^verbatim>\<open>entry[key]\<close> with a string key: a dict raises \<^verbatim>\<open>KeyError\<close> for a missing
  key, a tuple raises \<^verbatim>\<open>TypeError\<close> (tuple indices must be integers).\<close>

fun getitem :: "result \<Rightarrow> string \<Rightarrow> exn + atom" where
  "getitem (Dict d) k = (case map_of d k of None \<Rightarrow> Inl (KeyError k) | Some v \<Rightarrow> Inr v)"
| "getitem (Tuple vs) k = Inl (TypeError ''tuple indices must be integers or slices, not str'')"

text \<open>\<^verbatim>\<open>entry[key] = v\<close>: a dict overwrites the key in place or appends it, a tuple
  raises \<^verbatim>\<open>TypeError\<close>.\<close>

fun dict_update :: "string \<Rightarrow> atom \<Rightarrow> (string \<times> atom) list \<Rightarrow> (string \<times> atom) list" where
  "dict_update k v [] = [(k, v)]"
| "dict_update k v ((k', v') # d) = (if k' = k then (k, v) # d else (k', v') # dict_update k v d)"

fun setitem :: "result \<Rightarrow> string \<Rightarrow> atom \<Rightarrow> exn + result" where
  "setitem (Dict d) k v = Inr (Dict (dict_update k v d))"
| "setitem (Tuple vs) k v = Inl (TypeError ''tuple object does not support item assignment'')"

text \<open>\<^verbatim>\<open>len(x)\<close>: defined on strings, a \<^verbatim>\<open>TypeError\<close> on numbers.\<close>

fun py_len :: "atom \<Rightarrow> exn + atom" where
  "py_len (VStr s) = Inr (VInt (int (length s)))"
| "py_len (VFloat x) = Inl (TypeError ''object of type float has no len()'')"
| "py_len (VInt i) = Inl (TypeError ''object of type int has no len()'')"

text \<open>The substring test \<^verbatim>\<open>sub in s\<close> on strings.\<close>

fun str_contains :: "string \<Rightarrow> string \<Rightarrow> bool" where
  "str_contains [] sub = (sub = [])"
| "str_contains (c # cs) sub = (prefix sub (c # cs) \<or> str_contains cs sub)"

subsection \<open>Prompt Builder\<close>

text \<open>The tone argument is a Python string or \<^verbatim>\<open>None\<close>; an f-string renders
  \<^verbatim>\<open>None\<close> as the text \<^verbatim>\<open>None\<close>.\<close>

type_synonym tone = "string option"

fun fmt_tone :: "tone \<Rightarrow> string" where
  "fmt_tone None = ''None''"
| "fmt_tone (Some t) = t"

text \<open>\<^verbatim>\<open>sl_llamachat.py\<close>, \<^verbatim>\<open>build_prompt\<close>: the template, for every tone.\<close>

definition llamachat_build_prompt :: "tone \<Rightarrow> string \<Rightarrow> string" where
  "llamachat_build_prompt tone user_input =
     ''You are an expert in discussing philosophical questions. '' @
     ''Your tone is: **'' @ fmt_tone tone @ ''** in nature. '' @
     ''Please provide a thoughtful and detailed answer to the following question: '' @
     ''**'' @ user_input @ ''**''"

text \<open>\<^verbatim>\<open>sl_llm_philosopher.py\<close>, \<^verbatim>\<open>build_prompt\<close>: the question itself when the
  tone is \<^verbatim>\<open>None\<close> or \<^verbatim>\<open>"Neutral"\<close>, the template otherwise.\<close>

definition philosopher_build_prompt :: "tone \<Rightarrow> string \<Rightarrow> string" where
  "philosopher_build_prompt tone user_input =
     (if tone = None \<or> tone = Some ''Neutral'' then user_input
      else
        ''You are an expert in discussing philosophical questions. '' @
        ''Your tone is: **'' @ fmt_tone tone @ ''** in nature. '' @
        ''Please provide a thoughtful and detailed answer to the following question: '' @
        ''**'' @ user_input @ ''**'')"

subsection \<open>Question file\<close>

text \<open>\<^verbatim>\<open>str.isspace\<close> on one character, for the code points below 256: tab, line
  feed, vertical tab, form feed, carriage return, the separators 0x1C to 0x1F, space,
  next line (0x85) and no-break space (0xA0).\<close>

definition isspace :: "char \<Rightarrow> bool" where
  "isspace c = ((of_char c :: nat) \<in> {9, 10, 11, 12, 13, 28, 29, 30, 31, 32, 133, 160})"

text \<open>\<^verbatim>\<open>str.strip()\<close>: whitespace removed at both ends.\<close>

definition strip :: "string \<Rightarrow> string" where
  "strip s = rev (dropWhile isspace (rev (dropWhile isspace s)))"

text \<open>A file opened with \<^verbatim>\<open>open(path, 'r')\<close> reads in universal-newlines mode:
  \<^verbatim>\<open>\r\n\<close> and a lone \<^verbatim>\<open>\r\<close> arrive as \<^verbatim>\<open>\n\<close>.\<close>

fun universal_newlines :: "string \<Rightarrow> string" where
  "universal_newlines [] = []"
| "universal_newlines [c] = [if c = CHR 0x0D then CHR 0x0A else c]"
| "universal_newlines (c # d # cs) =
     (if c = CHR 0x0D \<and> d = CHR 0x0A then CHR 0x0A # universal_newlines cs
      else if c = CHR 0x0D then CHR 0x0A # universal_newlines (d # cs)
      else c # universal_newlines (d # cs))"

text \<open>Iterating over a text file yields its lines, each with its line feed; a last line
  without a line feed is yielded as it is.\<close>

fun file_lines :: "string \<Rightarrow> string list" where
  "file_lines [] = []"
| "file_lines (c # cs) =
     (if c = CHR 0x0A then [c] # file_lines cs
      else (case file_lines cs of [] \<Rightarrow> [[c]] | l # ls \<Rightarrow> (c # l) # ls))"

text \<open>\<^verbatim>\<open>load_questions\<close> (the same text in both scripts), without its cache decorator.
  The file system is a map from paths to the decoded text of the files that can be
  opened; a path outside it raises.\<close>

definition load_questions :: "(string \<rightharpoonup> string) \<Rightarrow> string \<Rightarrow> exn + string list" where
  "load_questions fs file_path =
     (case fs file_path of
        None \<Rightarrow> Inl (FileNotFoundError file_path)
      | Some text \<Rightarrow>
          Inr [strip line. line \<leftarrow> file_lines (universal_newlines text), strip line \<noteq> []])"

subsection \<open>Model Client Adapter and the outside world\<close>

text \<open>\<^verbatim>\<open>LlamaModel\<close>: the three settings. (The field \<^verbatim>\<open>messages\<close> is set to the
  empty list by the constructor and never read.)\<close>

record LlamaModel =
  model_name :: string
  temperature :: real
  max_tokens :: int

text \<open>\<^verbatim>\<open>get_llama_model\<close>: the constructor call. Its cache returns the object built
  for the same three arguments, which no code mutates.\<close>

definition get_llama_model :: "string \<Rightarrow> real \<Rightarrow> int \<Rightarrow> LlamaModel" where
  "get_llama_model name temp maxtok = \<lparr>model_name = name, temperature = temp, max_tokens = maxtok\<rparr>"

text \<open>The lines of \<^verbatim>\<open>display_chat_history\<close>, in the order it writes them.\<close>

datatype field = UserLine | LlamaLine | WordCount | TimeTaken

text \<open>What the scripts do to the outside, in the order they do it.\<close>

datatype event =
    ClockRead real               \<comment> \<open>\<^verbatim>\<open>time.time()\<close> returned this reading\<close>
  | OllamaChat LlamaModel string \<comment> \<open>\<^verbatim>\<open>ollama.chat\<close> called with one user message\<close>
  | LogError string              \<comment> \<open>\<^verbatim>\<open>logging.error\<close>\<close>
  | StError string               \<comment> \<open>\<^verbatim>\<open>st.error\<close>\<close>
  | ExplainTone string           \<comment> \<open>\<^verbatim>\<open>st.sidebar.write(TONES[selected_tone])\<close>\<close>
  | SidebarTime                  \<comment> \<open>the sidebar line with \<^verbatim>\<open>datetime.datetime.now()\<close>\<close>
  | StWrite field atom           \<comment> \<open>\<^verbatim>\<open>st.write\<close> of one history line\<close>
  | StDivider                    \<comment> \<open>\<^verbatim>\<open>st.divider\<close>\<close>

fun is_clock_read :: "event \<Rightarrow> bool" where
  "is_clock_read (ClockRead t) = True"
| "is_clock_read e = False"

fun is_ollama_chat :: "event \<Rightarrow> bool" where
  "is_ollama_chat (OllamaChat m p) = True"
| "is_ollama_chat e = False"

text \<open>The outside world, fixed for a session: what the wall clock returns at its
  \<open>k\<close>-th reading, how the backend answers its \<open>k\<close>-th call (the text of
  \<^verbatim>\<open>response['message']['content']\<close>, or the exception that leaves
  \<^verbatim>\<open>get_response\<close>), and the files.\<close>

record env =
  clock :: "nat \<Rightarrow> real"
  ollama :: "nat \<Rightarrow> LlamaModel \<Rightarrow> string \<Rightarrow> exn + string"
  files :: "string \<rightharpoonup> string"

definition time_time :: "env \<Rightarrow> event list \<Rightarrow> real \<times> event list" where
  "time_time e tr = (let t = clock e (length (filter is_clock_read tr)) in (t, tr @ [ClockRead t]))"

text \<open>\<^verbatim>\<open>LlamaModel.get_response\<close>: one single-turn request.\<close>

definition get_response :: "env \<Rightarrow> LlamaModel \<Rightarrow> string \<Rightarrow> event list \<Rightarrow> (exn + string) \<times> event list" where
  "get_response e llm user_input tr =
     (ollama e (length (filter is_ollama_chat tr)) llm user_input, tr @ [OllamaChat llm user_input])"

subsection \<open>Response Recorder\<close>

definition sorry_message :: string where
  "sorry_message = ''Sorry, I couldn'' @ [CHR 0x27] @ ''t generate a response.''"

text \<open>\<^verbatim>\<open>generate_response\<close>. The \<^verbatim>\<open>try\<close> body raises only where
  \<^verbatim>\<open>get_response\<close> does; the \<^verbatim>\<open>except Exception\<close> clause logs, shows the
  message and returns the tuple. The three keys are upper case in
  \<^verbatim>\<open>sl_llamachat.py\<close> and lower case in \<^verbatim>\<open>sl_llm_philosopher.py\<close>.\<close>

definition llamachat_generate_response ::
  "env \<Rightarrow> LlamaModel \<Rightarrow> string \<Rightarrow> event list \<Rightarrow> (exn + result) \<times> event list" where
  "llamachat_generate_response e llama user_input tr =
     (let (start_time, tr1) = time_time e tr;
          (r, tr2) = get_response e llama user_input tr1
      in case r of
           Inr response \<Rightarrow>
             (let (end_time, tr3) = time_time e tr2;
                  time_taken = end_time - start_time
              in (Inr (Dict [(''Response'', VStr response),
                             (''Input'', VStr user_input),
                             (''Time'', VFloat time_taken)]), tr3))
         | Inl ex \<Rightarrow>
             (Inr (Tuple [VStr sorry_message, VInt 0, VInt 0, VInt 0]),
              tr2 @ [LogError (''Error generating response: '' @ exn_str ex),
                     StError sorry_message]))"

definition philosopher_generate_response ::
  "env \<Rightarrow> LlamaModel \<Rightarrow> string \<Rightarrow> event list \<Rightarrow> (exn + result) \<times> event list" where
  "philosopher_generate_response e llm user_input tr =
     (let (start_time, tr1) = time_time e tr;
          (r, tr2) = get_response e llm user_input tr1
      in case r of
           Inr response \<Rightarrow>
             (let (end_time, tr3) = time_time e tr2;
                  time_taken = end_time - start_time
              in (Inr (Dict [(''response'', VStr response),
                             (''input'', VStr user_input),
                             (''time'', VFloat time_taken)]), tr3))
         | Inl ex \<Rightarrow>
             (Inr (Tuple [VStr sorry_message, VInt 0, VInt 0, VInt 0]),
              tr2 @ [LogError (''Error generating response: '' @ exn_str ex),
                     StError sorry_message]))"

subsection \<open>Session state, History Store and page input\<close>

text \<open>\<^verbatim>\<open>st.session_state\<close> holds the two keys \<^verbatim>\<open>chat_history\<close> and
  \<^verbatim>\<open>user_input\<close>, each absent (\<open>None\<close>) until assigned; it survives a run of
  \<^verbatim>\<open>main\<close> that ends in an exception. With it travel the cache of
  \<^verbatim>\<open>load_questions\<close> (by path) and the trace.\<close>

record state =
  ss_chat_history :: "result list option"
  ss_user_input :: "string option"
  questions_cache :: "string \<rightharpoonup> string list"
  trace :: "event list"

text \<open>The History Store is the list under \<^verbatim>\<open>chat_history\<close>:
  \<^verbatim>\<open>st.session_state.chat_history = []\<close> clears it,
  \<^verbatim>\<open>st.session_state.chat_history.append(result)\<close> adds at its end; an absent key
  raises on access.\<close>

definition history_clear :: "state \<Rightarrow> state" where
  "history_clear s = s\<lparr>ss_chat_history := Some []\<rparr>"

definition history_append :: "result \<Rightarrow> state \<Rightarrow> exn + state" where
  "history_append r s =
     (case ss_chat_history s of
        None \<Rightarrow> Inl (AttributeError ''chat_history'')
      | Some h \<Rightarrow> Inr (s\<lparr>ss_chat_history := Some (h @ [r])\<rparr>))"

text \<open>What the page hands to one run of \<^verbatim>\<open>main\<close>: the sidebar choices, which
  buttons were clicked, and the draw of \<^verbatim>\<open>random.choice\<close>. The text typed into the
  input box is in the session state under \<^verbatim>\<open>user_input\<close> when the run starts.\<close>

record widgets =
  w_model_name :: string
  w_temperature :: real
  w_max_tokens :: int
  w_selected_tone :: string
  w_explain_tone :: bool
  w_clear_history :: bool
  w_random_question :: bool
  w_random_draw :: nat

text \<open>\<^verbatim>\<open>random.choice\<close>: an element of a non-empty sequence, an
  \<^verbatim>\<open>IndexError\<close> on an empty one.\<close>

definition random_choice :: "nat \<Rightarrow> 'a list \<Rightarrow> exn + 'a" where
  "random_choice draw xs =
     (if xs = [] then Inl (IndexError ''Cannot choose from an empty sequence'')
      else Inr (xs ! (draw mod length xs)))"

text \<open>\<^verbatim>\<open>load_questions\<close> under \<^verbatim>\<open>@st.cache_resource\<close>: a stored result is
  returned without reading the file; a call that raises stores nothing.\<close>

definition cached_load_questions :: "env \<Rightarrow> string \<Rightarrow> state \<Rightarrow> (exn + string list) \<times> state" where
  "cached_load_questions e file_path s =
     (case questions_cache s file_path of
        Some qs \<Rightarrow> (Inr qs, s)
      | None \<Rightarrow>
          (case load_questions (files e) file_path of
             Inl ex \<Rightarrow> (Inl ex, s)
           | Inr qs \<Rightarrow> (Inr qs, s\<lparr>questions_cache := (questions_cache s)(file_path \<mapsto> qs)\<rparr>)))"

subsection \<open>Presentation: the history display\<close>

text \<open>One pass of the loop body of \<^verbatim>\<open>display_chat_history\<close>, for the keys the
  script reads: the input, the response (read twice, the second time for its length) and
  the time. What was written before a failing lookup stays on the page.\<close>

definition display_entry ::
  "string \<Rightarrow> string \<Rightarrow> string \<Rightarrow> result \<Rightarrow> event list \<Rightarrow> exn option \<times> event list" where
  "display_entry k_input k_response k_time entry tr =
     (case getitem entry k_input of
        Inl ex \<Rightarrow> (Some ex, tr)
      | Inr inp \<Rightarrow>
          (let tr1 = tr @ [StWrite UserLine inp] in
           case getitem entry k_response of
             Inl ex \<Rightarrow> (Some ex, tr1)
           | Inr resp \<Rightarrow>
               (let tr2 = tr1 @ [StWrite LlamaLine resp] in
                case getitem entry k_response of
                  Inl ex \<Rightarrow> (Some ex, tr2)
                | Inr resp' \<Rightarrow>
                    (case py_len resp' of
                       Inl ex \<Rightarrow> (Some ex, tr2)
                     | Inr n \<Rightarrow>
                         (let tr3 = tr2 @ [StWrite WordCount n] in
                          case getitem entry k_time of
                            Inl ex \<Rightarrow> (Some ex, tr3)
                          | Inr t \<Rightarrow> (None, tr3 @ [StWrite TimeTaken t, StDivider]))))))"

fun display_entries ::
  "string \<Rightarrow> string \<Rightarrow> string \<Rightarrow> result list \<Rightarrow> event list \<Rightarrow> exn option \<times> event list" where
  "display_entries k_input k_response k_time [] tr = (None, tr)"
| "display_entries k_input k_response k_time (entry # es) tr =
     (case display_entry k_input k_response k_time entry tr of
        (Some ex, tr') \<Rightarrow> (Some ex, tr')
      | (None, tr') \<Rightarrow> display_entries k_input k_response k_time es tr')"

text \<open>\<^verbatim>\<open>display_chat_history\<close>: the entries newest first. \<^verbatim>\<open>sl_llamachat.py\<close>
  reads \<^verbatim>\<open>Input\<close>, \<^verbatim>\<open>Response\<close>, \<^verbatim>\<open>Time\<close>; \<^verbatim>\<open>sl_llm_philosopher.py\<close>
  reads \<^verbatim>\<open>Input\<close>, \<^verbatim>\<open>response\<close>, \<^verbatim>\<open>time\<close>.\<close>

definition llamachat_display_chat_history :: "state \<Rightarrow> exn option \<times> state" where
  "llamachat_display_chat_history s =
     (case ss_chat_history s of
        None \<Rightarrow> (Some (AttributeError ''chat_history''), s)
      | Some h \<Rightarrow>
          (let (r, tr) = display_entries ''Input'' ''Response'' ''Time'' (rev h) (trace s)
           in (r, s\<lparr>trace := tr\<rparr>)))"

definition philosopher_display_chat_history :: "state \<Rightarrow> exn option \<times> state" where
  "philosopher_display_chat_history s =
     (case ss_chat_history s of
        None \<Rightarrow> (Some (AttributeError ''chat_history''), s)
      | Some h \<Rightarrow>
          (let (r, tr) = display_entries ''Input'' ''response'' ''time'' (rev h) (trace s)
           in (r, s\<lparr>trace := tr\<rparr>)))"

subsection \<open>The script \<^verbatim>\<open>sl_llamachat.py\<close>\<close>

text \<open>The second half of \<^verbatim>\<open>main\<close>, from the chat interface on: the input box, the
  sidebar clock, the prompt, the two calls of \<^verbatim>\<open>generate_response\<close>, the append and
  the display.\<close>

definition llamachat_main_chat :: "env \<Rightarrow> widgets \<Rightarrow> LlamaModel \<Rightarrow> state \<Rightarrow> exn option \<times> state" where
  "llamachat_main_chat e w llama s5 =
     (let s6 = (if ss_user_input s5 = None then s5\<lparr>ss_user_input := Some []\<rparr> else s5);
          user_input = (case ss_user_input s6 of None \<Rightarrow> [] | Some t \<Rightarrow> t);
          s7 = s6\<lparr>trace := trace s6 @ [SidebarTime]\<rparr>;
          prompt = llamachat_build_prompt (Some (w_selected_tone w)) user_input
      in case llamachat_generate_response e llama prompt (trace s7) of
           (Inl ex, tr8) \<Rightarrow> (Some ex, s7\<lparr>trace := tr8\<rparr>)
         | (Inr result, tr8) \<Rightarrow>
             (let s8 = s7\<lparr>trace := tr8\<rparr> in
              if user_input \<noteq> [] then
                (case llamachat_generate_response e llama user_input (trace s8) of
                   (Inl ex, tr9) \<Rightarrow> (Some ex, s8\<lparr>trace := tr9\<rparr>)
                 | (Inr result', tr9) \<Rightarrow>
                     (case history_append result' (s8\<lparr>trace := tr9\<rparr>) of
                        Inl ex \<Rightarrow> (Some ex, s8\<lparr>trace := tr9\<rparr>)
                      | Inr s10 \<Rightarrow> llamachat_display_chat_history s10))
              else llamachat_display_chat_history s8))"

text \<open>\<^verbatim>\<open>main\<close>: the sidebar (tone explanation, clearing and initialising the history),
  the model object, the question file and the random-question button, then the chat.
  The result is the exception that ended the run, if any, and the state it left.\<close>

definition llamachat_main :: "env \<Rightarrow> widgets \<Rightarrow> state \<Rightarrow> exn option \<times> state" where
  "llamachat_main e w s =
     (let s1 = (if w_explain_tone w then s\<lparr>trace := trace s @ [ExplainTone (w_selected_tone w)]\<rparr> else s);
          s2 = (if w_clear_history w then history_clear s1 else s1);
          s3 = (if ss_chat_history s2 = None then s2\<lparr>ss_chat_history := Some []\<rparr> else s2);
          llama = get_llama_model (w_model_name w) (w_temperature w) (w_max_tokens w)
      in case cached_load_questions e ''questions.txt'' s3 of
           (Inl ex, s4) \<Rightarrow> (Some ex, s4)
         | (Inr questions, s4) \<Rightarrow>
             (case (if w_random_question w
                    then (case random_choice (w_random_draw w) questions of
                            Inl ex \<Rightarrow> Inl ex
                          | Inr random_question \<Rightarrow> Inr (s4\<lparr>ss_user_input := Some random_question\<rparr>))
                    else Inr s4) of
                Inl ex \<Rightarrow> (Some ex, s4)
              | Inr s5 \<Rightarrow> llamachat_main_chat e w llama s5))"

subsection \<open>The script \<^verbatim>\<open>sl_llm_philosopher.py\<close>\<close>

text \<open>As committed, the file does not compile: the literal of \<^verbatim>\<open>CLASSES\<close> has a
  stray quote after \<^verbatim>\<open>Epistemology\<close>, and \<^verbatim>\<open>main\<close> uses the keyword
  \<^verbatim>\<open>class\<close> as a variable. The embedding reads the list as its eleven names and
  the variable as \<open>cls\<close>.\<close>

definition CLASSES :: "string list" where
  "CLASSES = [''Metaphysics'', ''Epistemology'', ''Ethics'', ''Aesthetics'',
     ''Logic and Reasoning'', ''Political Philosophy'', ''Philosophy of Science'',
     ''Philosophy of Religion'', ''Philosophy of Mind'', ''Philosophy of Language'',
     ''Philosophy of Time'']"

text \<open>How an f-string renders a list of strings that hold no quote, backslash or control
  character: each in single quotes, separated by a comma and a space, in brackets.\<close>

fun join_comma :: "string list \<Rightarrow> string" where
  "join_comma [] = []"
| "join_comma [x] = x"
| "join_comma (x # y # ys) = x @ '', '' @ join_comma (y # ys)"

definition py_repr_list :: "string list \<Rightarrow> string" where
  "py_repr_list xs = ''['' @ join_comma (map (\<lambda>x. [CHR 0x27] @ x @ [CHR 0x27]) xs) @ '']''"

text \<open>\<^verbatim>\<open>config_panel\<close>: the sidebar of the other script, the model object and the
  sidebar clock; returns the model and the tone.\<close>

definition config_panel :: "widgets \<Rightarrow> state \<Rightarrow> (LlamaModel \<times> string) \<times> state" where
  "config_panel w s =
     (let s1 = (if w_explain_tone w then s\<lparr>trace := trace s @ [ExplainTone (w_selected_tone w)]\<rparr> else s);
          s2 = (if w_clear_history w then history_clear s1 else s1);
          s3 = (if ss_chat_history s2 = None then s2\<lparr>ss_chat_history := Some []\<rparr> else s2);
          llm = get_llama_model (w_model_name w) (w_temperature w) (w_max_tokens w);
          s4 = s3\<lparr>trace := trace s3 @ [SidebarTime]\<rparr>
      in ((llm, w_selected_tone w), s4))"

text \<open>\<^verbatim>\<open>get_new_question\<close>: the question file and its button only when the file
  exists, then the input box.\<close>

definition get_new_question :: "env \<Rightarrow> widgets \<Rightarrow> state \<Rightarrow> (exn + string) \<times> state" where
  "get_new_question e w s =
     (case (if files e ''questions.txt'' \<noteq> None
            then (case cached_load_questions e ''questions.txt'' s of
                    (Inl ex, s1) \<Rightarrow> (Some ex, s1)
                  | (Inr questions, s1) \<Rightarrow>
                      (if w_random_question w
                       then (case random_choice (w_random_draw w) questions of
                               Inl ex \<Rightarrow> (Some ex, s1)
                             | Inr random_question \<Rightarrow> (None, s1\<lparr>ss_user_input := Some random_question\<rparr>))
                       else (None, s1)))
            else (None, s)) of
        (Some ex, s2) \<Rightarrow> (Inl ex, s2)
      | (None, s2) \<Rightarrow>
          (let s3 = (if ss_user_input s2 = None then s2\<lparr>ss_user_input := Some []\<rparr> else s2);
               question = (case ss_user_input s3 of None \<Rightarrow> [] | Some t \<Rightarrow> t)
           in (Inr question, s3)))"

text \<open>\<^verbatim>\<open>main\<close>: for a non-empty question the classification call, the lookup of its
  \<^verbatim>\<open>response\<close>, the prompt, the answer call, the assignment of the \<^verbatim>\<open>class\<close>
  key and the append; then the display.\<close>

definition philosopher_main :: "env \<Rightarrow> widgets \<Rightarrow> state \<Rightarrow> exn option \<times> state" where
  "philosopher_main e w s =
     (let ((llm, tone), s1) = config_panel w s in
      case get_new_question e w s1 of
        (Inl ex, s2) \<Rightarrow> (Some ex, s2)
      | (Inr question, s2) \<Rightarrow>
          (let class_question =
                 ''Given the question: '' @ question @
                 '', what is the most accurate classification? Choose from the following categories: '' @
                 py_repr_list CLASSES @ ''.''
           in if question \<noteq> [] then
                (case philosopher_generate_response e llm class_question (trace s2) of
                   (Inl ex, tr3) \<Rightarrow> (Some ex, s2\<lparr>trace := tr3\<rparr>)
                 | (Inr result, tr3) \<Rightarrow>
                     (case getitem result ''response'' of
                        Inl ex \<Rightarrow> (Some ex, s2\<lparr>trace := tr3\<rparr>)
                      | Inr cls \<Rightarrow>
                          (let prompt = philosopher_build_prompt (Some tone) question in
                           case philosopher_generate_response e llm prompt tr3 of
                             (Inl ex, tr4) \<Rightarrow> (Some ex, s2\<lparr>trace := tr4\<rparr>)
                           | (Inr result', tr4) \<Rightarrow>
                               (case setitem result' ''class'' cls of
                                  Inl ex \<Rightarrow> (Some ex, s2\<lparr>trace := tr4\<rparr>)
                                | Inr result'' \<Rightarrow>
                                    (case history_append result'' (s2\<lparr>trace := tr4\<rparr>) of
                                       Inl ex \<Rightarrow> (Some ex, s2\<lparr>trace := tr4\<rparr>)
                                     | Inr s5 \<Rightarrow> philosopher_display_chat_history s5)))))
              else philosopher_display_chat_history s2))"

text \<open>The prompts a trace shows the backend to have received, in call order.\<close>

fun chat_prompts :: "event list \<Rightarrow> string list" where
  "chat_prompts [] = []"
| "chat_prompts (OllamaChat m p # tr) = p # chat_prompts tr"
| "chat_prompts (ev # tr) = chat_prompts tr"

subsection \<open>Example sessions\<close>

text \<open>Concrete inputs for the closed theorems below: the model object of the default
  sidebar, a backend that refuses every call, one that echoes its prompt, one that
  classifies and then refuses, one that
  echoes while the wall clock is set back between the first two readings, a page with
  the tone \<^verbatim>\<open>Socratic\<close> and no button clicked, and a fresh session with a question
  typed into the input box.\<close>

definition example_llm :: LlamaModel where
  "example_llm = get_llama_model ''llama3.2'' (1 / 2) 2000"

definition refusing_env :: env where
  "refusing_env =
     \<lparr>clock = (\<lambda>k. real k),
      ollama = (\<lambda>k m p. Inl (Exception ''connection refused'')),
      files = [''questions.txt'' \<mapsto> ''What is truth?'' @ [CHR 0x0A]]\<rparr>"

definition answering_env :: env where
  "answering_env =
     \<lparr>clock = (\<lambda>k. real k),
      ollama = (\<lambda>k m p. Inr (''echo: '' @ p)),
      files = [''questions.txt'' \<mapsto> ''What is truth?'' @ [CHR 0x0A]]\<rparr>"

definition clock_set_back_env :: env where
  "clock_set_back_env =
     \<lparr>clock = (\<lambda>k. if k = 0 then 5 else 3),
      ollama = (\<lambda>k m p. Inr (''echo: '' @ p)),
      files = [''questions.txt'' \<mapsto> ''What is truth?'' @ [CHR 0x0A]]\<rparr>"

definition example_widgets :: widgets where
  "example_widgets =
     \<lparr>w_model_name = ''llama3.2'', w_temperature = 1 / 2, w_max_tokens = 2000,
      w_selected_tone = ''Socratic'', w_explain_tone = False, w_clear_history = False,
      w_random_question = False, w_random_draw = 0\<rparr>"

definition typed_session :: "string \<Rightarrow> state" where
  "typed_session q =
     \<lparr>ss_chat_history = None, ss_user_input = Some q, questions_cache = Map.empty, trace = []\<rparr>"

definition answer_refusing_env :: env where
  "answer_refusing_env =
     \<lparr>clock = (\<lambda>k. real k),
      ollama = (\<lambda>k m p. if k = 0 then Inr ''Ethics'' else Inl (Exception ''timed out'')),
      files = [''questions.txt'' \<mapsto> ''What is truth?'' @ [CHR 0x0A]]\<rparr>"

text \<open>Two runs of \<^verbatim>\<open>sl_llamachat.py\<close> in one session: the question \<^verbatim>\<open>A?\<close>, then
  the question \<^verbatim>\<open>B?\<close> typed over it.\<close>

definition first_run :: state where
  "first_run = snd (llamachat_main answering_env example_widgets (typed_session ''A?''))"

definition second_run :: state where
  "second_run =
     snd (llamachat_main answering_env example_widgets (first_run\<lparr>ss_user_input := Some ''B?''\<rparr>))"

section \<open>Properties\<close>

subsection \<open>Substrings\<close>

lemma str_contains_iff_sublist: "str_contains s sub \<longleftrightarrow> sublist sub s"
  by (induction s) (auto simp: sublist_Cons_right)

lemma str_contains_mid: "str_contains (pre @ sub @ post) sub"
  by (simp add: str_contains_iff_sublist)

subsection \<open>Prompt Builder\<close>

text \<open>
  Claim C2, as the code has it. In \<^verbatim>\<open>sl_llm_philosopher.py\<close> the tone \<^verbatim>\<open>None\<close> and
  the tone \<^verbatim>\<open>"Neutral"\<close> make \<^verbatim>\<open>build_prompt\<close> return the question unchanged.
  \<^verbatim>\<open>sl_llamachat.py\<close> has no neutral tone: its \<^verbatim>\<open>build_prompt\<close> wraps the question
  in the template for every tone, so it never returns the question unchanged.
\<close>

theorem C2_neutral_passes_question_through:
  "philosopher_build_prompt None q = q \<and>
   philosopher_build_prompt (Some ''Neutral'') q = q \<and>
   llamachat_build_prompt tone q \<noteq> q"
proof -
  have "length q < length (llamachat_build_prompt tone q)"
    by (simp add: llamachat_build_prompt_def)
  then show ?thesis
    by (auto simp: philosopher_build_prompt_def)
qed

text \<open>The claim as stated, for both scripts, fails in \<^verbatim>\<open>sl_llamachat.py\<close>: with the
  tone \<^verbatim>\<open>None\<close> or \<^verbatim>\<open>"Neutral"\<close> the question \<^verbatim>\<open>Q\<close> comes back inside the
  template.\<close>

theorem C2_llamachat_counterexample:
  "llamachat_build_prompt None ''Q'' \<noteq> ''Q'' \<and>
   llamachat_build_prompt (Some ''Neutral'') ''Q'' \<noteq> ''Q''"
  by (simp add: llamachat_build_prompt_def)

text \<open>
  Claim C3. For a tone that is a name other than \<^verbatim>\<open>"Neutral"\<close> and for every question,
  the prompt built by either script contains the tone name and contains the question,
  character for character.
\<close>

theorem C3_prompt_contains_tone_and_question:
  assumes "tone = Some name" and "name \<noteq> ''Neutral''"
  shows "str_contains (philosopher_build_prompt tone q) name \<and>
         str_contains (philosopher_build_prompt tone q) q \<and>
         str_contains (llamachat_build_prompt tone q) name \<and>
         str_contains (llamachat_build_prompt tone q) q"
proof -
  let ?a = "''You are an expert in discussing philosophical questions. '' @ ''Your tone is: **''"
  let ?b = "''** in nature. '' @
            ''Please provide a thoughtful and detailed answer to the following question: '' @ ''**''"
  have tone_inside: "llamachat_build_prompt tone q = ?a @ name @ (?b @ q @ ''**'')"
    using assms by (simp add: llamachat_build_prompt_def)
  have question_inside: "llamachat_build_prompt tone q = (?a @ name @ ?b) @ q @ ''**''"
    using assms by (simp add: llamachat_build_prompt_def)
  have same: "philosopher_build_prompt tone q = llamachat_build_prompt tone q"
    using assms by (simp add: llamachat_build_prompt_def philosopher_build_prompt_def)
  have "str_contains (llamachat_build_prompt tone q) name"
    unfolding tone_inside by (rule str_contains_mid)
  moreover have "str_contains (llamachat_build_prompt tone q) q"
    unfolding question_inside by (rule str_contains_mid)
  ultimately show ?thesis by (simp add: same)
qed

theorem C3_witness:
  "Some ''Socratic'' = Some ''Socratic'' \<and> ''Socratic'' \<noteq> ''Neutral'' \<and>
   str_contains (philosopher_build_prompt (Some ''Socratic'') ''What is truth?'') ''Socratic'' \<and>
   str_contains (philosopher_build_prompt (Some ''Socratic'') ''What is truth?'') ''What is truth?'' \<and>
   str_contains (llamachat_build_prompt (Some ''Socratic'') ''What is truth?'') ''Socratic'' \<and>
   str_contains (llamachat_build_prompt (Some ''Socratic'') ''What is truth?'') ''What is truth?''"
  using C3_prompt_contains_tone_and_question [of "Some ''Socratic''" "''Socratic''" "''What is truth?''"]
  by simp

subsection \<open>Response Recorder\<close>

lemma llamachat_generate_response_ok:
  assumes "ollama e (length (filter is_ollama_chat tr)) llm p = Inr resp"
  shows "llamachat_generate_response e llm p tr =
     (Inr (Dict [(''Response'', VStr resp), (''Input'', VStr p),
                 (''Time'', VFloat (clock e (Suc (length (filter is_clock_read tr))) -
                                    clock e (length (filter is_clock_read tr))))]),
      tr @ [ClockRead (clock e (length (filter is_clock_read tr))), OllamaChat llm p,
            ClockRead (clock e (Suc (length (filter is_clock_read tr))))])"
  using assms
  by (simp add: llamachat_generate_response_def time_time_def get_response_def Let_def)

lemma philosopher_generate_response_ok:
  assumes "ollama e (length (filter is_ollama_chat tr)) llm p = Inr resp"
  shows "philosopher_generate_response e llm p tr =
     (Inr (Dict [(''response'', VStr resp), (''input'', VStr p),
                 (''time'', VFloat (clock e (Suc (length (filter is_clock_read tr))) -
                                    clock e (length (filter is_clock_read tr))))]),
      tr @ [ClockRead (clock e (length (filter is_clock_read tr))), OllamaChat llm p,
            ClockRead (clock e (Suc (length (filter is_clock_read tr))))])"
  using assms
  by (simp add: philosopher_generate_response_def time_time_def get_response_def Let_def)

lemma llamachat_generate_response_fail:
  assumes "ollama e (length (filter is_ollama_chat tr)) llm p = Inl ex"
  shows "llamachat_generate_response e llm p tr =
     (Inr (Tuple [VStr sorry_message, VInt 0, VInt 0, VInt 0]),
      tr @ [ClockRead (clock e (length (filter is_clock_read tr))), OllamaChat llm p,
            LogError (''Error generating response: '' @ exn_str ex), StError sorry_message])"
  using assms
  by (simp add: llamachat_generate_response_def time_time_def get_response_def Let_def)

lemma philosopher_generate_response_fail:
  assumes "ollama e (length (filter is_ollama_chat tr)) llm p = Inl ex"
  shows "philosopher_generate_response e llm p tr =
     (Inr (Tuple [VStr sorry_message, VInt 0, VInt 0, VInt 0]),
      tr @ [ClockRead (clock e (length (filter is_clock_read tr))), OllamaChat llm p,
            LogError (''Error generating response: '' @ exn_str ex), StError sorry_message])"
  using assms
  by (simp add: philosopher_generate_response_def time_time_def get_response_def Let_def)

text \<open>
  Claim C1. When the backend call raises, \<^verbatim>\<open>generate_response\<close> of either script
  returns the tuple of the fixed message and three zeros, after exactly one clock
  reading, the call, one \<^verbatim>\<open>logging.error\<close> line and one \<^verbatim>\<open>st.error\<close> message; and
  whatever the backend does, \<^verbatim>\<open>generate_response\<close> returns a value and raises
  nothing.
\<close>

theorem C1_failure_is_caught_logged_and_zero_filled:
  "(ollama e (length (filter is_ollama_chat tr)) llm p = Inl ex \<longrightarrow>
      llamachat_generate_response e llm p tr =
        (Inr (Tuple [VStr sorry_message, VInt 0, VInt 0, VInt 0]),
         tr @ [ClockRead (clock e (length (filter is_clock_read tr))), OllamaChat llm p,
               LogError (''Error generating response: '' @ exn_str ex), StError sorry_message]) \<and>
      philosopher_generate_response e llm p tr =
        (Inr (Tuple [VStr sorry_message, VInt 0, VInt 0, VInt 0]),
         tr @ [ClockRead (clock e (length (filter is_clock_read tr))), OllamaChat llm p,
               LogError (''Error generating response: '' @ exn_str ex), StError sorry_message])) \<and>
   \<not> isl (fst (llamachat_generate_response e llm p tr)) \<and>
   \<not> isl (fst (philosopher_generate_response e llm p tr))"
proof (intro conjI impI)
  assume "ollama e (length (filter is_ollama_chat tr)) llm p = Inl ex"
  then show "llamachat_generate_response e llm p tr =
        (Inr (Tuple [VStr sorry_message, VInt 0, VInt 0, VInt 0]),
         tr @ [ClockRead (clock e (length (filter is_clock_read tr))), OllamaChat llm p,
               LogError (''Error generating response: '' @ exn_str ex), StError sorry_message])"
    and "philosopher_generate_response e llm p tr =
        (Inr (Tuple [VStr sorry_message, VInt 0, VInt 0, VInt 0]),
         tr @ [ClockRead (clock e (length (filter is_clock_read tr))), OllamaChat llm p,
               LogError (''Error generating response: '' @ exn_str ex), StError sorry_message])"
    by (rule llamachat_generate_response_fail, rule philosopher_generate_response_fail)
next
  show "\<not> isl (fst (llamachat_generate_response e llm p tr))"
    by (cases "ollama e (length (filter is_ollama_chat tr)) llm p")
       (simp_all add: llamachat_generate_response_fail llamachat_generate_response_ok)
next
  show "\<not> isl (fst (philosopher_generate_response e llm p tr))"
    by (cases "ollama e (length (filter is_ollama_chat tr)) llm p")
       (simp_all add: philosopher_generate_response_fail philosopher_generate_response_ok)
qed

theorem C1_witness:
  "ollama refusing_env (length (filter is_ollama_chat [])) example_llm ''Why?'' =
     Inl (Exception ''connection refused'') \<and>
   llamachat_generate_response refusing_env example_llm ''Why?'' [] =
     (Inr (Tuple [VStr sorry_message, VInt 0, VInt 0, VInt 0]),
      [ClockRead 0, OllamaChat example_llm ''Why?'',
       LogError ''Error generating response: connection refused'', StError sorry_message]) \<and>
   philosopher_generate_response refusing_env example_llm ''Why?'' [] =
     (Inr (Tuple [VStr sorry_message, VInt 0, VInt 0, VInt 0]),
      [ClockRead 0, OllamaChat example_llm ''Why?'',
       LogError ''Error generating response: connection refused'', StError sorry_message])"
  using C1_failure_is_caught_logged_and_zero_filled
          [of refusing_env "[]" example_llm "''Why?''" "Exception ''connection refused''"]
  by (simp add: refusing_env_def)

text \<open>
  Claim C8, as the code has it. When the backend call returns, the time field of the
  result is the second reading of \<^verbatim>\<open>time.time()\<close> minus the first, and between the two
  readings the trace holds the backend call and nothing else. The readings are wall-clock
  readings: the field is non-negative exactly when the second is not below the first.
\<close>

theorem C8_elapsed_is_difference_of_bracketing_readings:
  assumes "ollama e (length (filter is_ollama_chat tr)) llm p = Inr resp"
  shows "llamachat_generate_response e llm p tr =
      (Inr (Dict [(''Response'', VStr resp), (''Input'', VStr p),
                  (''Time'', VFloat (clock e (Suc (length (filter is_clock_read tr))) -
                                     clock e (length (filter is_clock_read tr))))]),
       tr @ [ClockRead (clock e (length (filter is_clock_read tr))), OllamaChat llm p,
             ClockRead (clock e (Suc (length (filter is_clock_read tr))))]) \<and>
    philosopher_generate_response e llm p tr =
      (Inr (Dict [(''response'', VStr resp), (''input'', VStr p),
                  (''time'', VFloat (clock e (Suc (length (filter is_clock_read tr))) -
                                     clock e (length (filter is_clock_read tr))))]),
       tr @ [ClockRead (clock e (length (filter is_clock_read tr))), OllamaChat llm p,
             ClockRead (clock e (Suc (length (filter is_clock_read tr))))]) \<and>
    ((0 \<le> clock e (Suc (length (filter is_clock_read tr))) -
           clock e (length (filter is_clock_read tr))) =
     (clock e (length (filter is_clock_read tr)) \<le>
      clock e (Suc (length (filter is_clock_read tr)))))"
  using assms
  by (simp add: llamachat_generate_response_ok philosopher_generate_response_ok)

theorem C8_witness:
  "ollama answering_env (length (filter is_ollama_chat [])) example_llm ''Why?'' = Inr ''echo: Why?'' \<and>
   llamachat_generate_response answering_env example_llm ''Why?'' [] =
      (Inr (Dict [(''Response'', VStr ''echo: Why?''), (''Input'', VStr ''Why?''),
                  (''Time'', VFloat 1)]),
       [ClockRead 0, OllamaChat example_llm ''Why?'', ClockRead 1]) \<and>
   philosopher_generate_response answering_env example_llm ''Why?'' [] =
      (Inr (Dict [(''response'', VStr ''echo: Why?''), (''input'', VStr ''Why?''),
                  (''time'', VFloat 1)]),
       [ClockRead 0, OllamaChat example_llm ''Why?'', ClockRead 1])"
  using C8_elapsed_is_difference_of_bracketing_readings
          [of answering_env "[]" example_llm "''Why?''" "''echo: Why?''"]
  by (simp add: answering_env_def)

text \<open>The claim as stated fails when the system clock is set back during the call:
  the readings 5 and 3 around a successful call give the time field \<open>-2\<close>.\<close>

theorem C8_clock_set_back_counterexample:
  "ollama clock_set_back_env 0 example_llm ''Why?'' = Inr ''echo: Why?'' \<and>
   llamachat_generate_response clock_set_back_env example_llm ''Why?'' [] =
      (Inr (Dict [(''Response'', VStr ''echo: Why?''), (''Input'', VStr ''Why?''),
                  (''Time'', VFloat (- 2))]),
       [ClockRead 5, OllamaChat example_llm ''Why?'', ClockRead 3]) \<and>
   (- 2 :: real) < 0"
  by (simp add: clock_set_back_env_def llamachat_generate_response_def time_time_def
        get_response_def)

subsection \<open>Shape of the failure result\<close>

lemma display_entry_tuple: "fst (display_entry ki kr kt (Tuple vs) tr) \<noteq> None"
  by (simp add: display_entry_def)

lemma display_entries_tuple:
  "Tuple vs \<in> set es \<Longrightarrow> fst (display_entries ki kr kt es tr) \<noteq> None"
proof (induction es arbitrary: tr)
  case Nil
  then show ?case by simp
next
  case (Cons entry es)
  show ?case
  proof (cases "display_entry ki kr kt entry tr")
    case (Pair r tr')
    show ?thesis
    proof (cases r)
      case None
      with Pair have "entry \<noteq> Tuple vs"
        using display_entry_tuple [of ki kr kt vs tr] by auto
      with Cons.prems have "Tuple vs \<in> set es" by simp
      with Cons.IH [of tr'] Pair None show ?thesis by simp
    next
      case (Some ex)
      with Pair show ?thesis by simp
    qed
  qed
qed

lemma llamachat_display_tuple:
  assumes "ss_chat_history s = Some h" and "Tuple vs \<in> set h"
  shows "fst (llamachat_display_chat_history s) \<noteq> None"
proof -
  from assms(2) have "Tuple vs \<in> set (rev h)" by simp
  then have "fst (display_entries ''Input'' ''Response'' ''Time'' (rev h) (trace s)) \<noteq> None"
    by (rule display_entries_tuple)
  with assms(1) show ?thesis
    by (simp add: llamachat_display_chat_history_def case_prod_beta)
qed

text \<open>
  Claim C10. On success \<^verbatim>\<open>generate_response\<close> returns a dict with the three keys
  for the response, the input and the time; on failure it returns the 4-tuple of the
  fixed message and three zeros, on which every lookup by key raises. The history display
  of \<^verbatim>\<open>sl_llamachat.py\<close> raises whenever the history holds such a tuple.
\<close>

theorem C10_failure_result_is_a_tuple_and_breaks_display:
  "(ollama e (length (filter is_ollama_chat tr)) llm p = Inr resp \<longrightarrow>
      (\<exists>t. fst (llamachat_generate_response e llm p tr) =
             Inr (Dict [(''Response'', VStr resp), (''Input'', VStr p), (''Time'', VFloat t)])) \<and>
      (\<exists>t. fst (philosopher_generate_response e llm p tr) =
             Inr (Dict [(''response'', VStr resp), (''input'', VStr p), (''time'', VFloat t)]))) \<and>
   (ollama e (length (filter is_ollama_chat tr)) llm p = Inl ex \<longrightarrow>
      fst (llamachat_generate_response e llm p tr) =
        Inr (Tuple [VStr sorry_message, VInt 0, VInt 0, VInt 0]) \<and>
      fst (philosopher_generate_response e llm p tr) =
        Inr (Tuple [VStr sorry_message, VInt 0, VInt 0, VInt 0])) \<and>
   isl (getitem (Tuple [VStr sorry_message, VInt 0, VInt 0, VInt 0]) k) \<and>
   (ss_chat_history s = Some h \<and> Tuple [VStr sorry_message, VInt 0, VInt 0, VInt 0] \<in> set h \<longrightarrow>
      fst (llamachat_display_chat_history s) \<noteq> None)"
  by (auto simp: llamachat_generate_response_ok philosopher_generate_response_ok
        llamachat_generate_response_fail philosopher_generate_response_fail
        dest: llamachat_display_tuple)

text \<open>The definitions a concrete run unfolds.\<close>

lemmas run_defs = llamachat_main_def llamachat_main_chat_def cached_load_questions_def
  load_questions_def llamachat_generate_response_def philosopher_generate_response_def time_time_def get_response_def
  history_append_def history_clear_def llamachat_display_chat_history_def philosopher_display_chat_history_def
  display_entry_def example_widgets_def typed_session_def get_llama_model_def example_llm_def
  philosopher_main_def config_panel_def get_new_question_def random_choice_def Let_def strip_def isspace_def

theorem C10_witness:
  "ollama answering_env (length (filter is_ollama_chat [])) example_llm ''Why?'' = Inr ''echo: Why?'' \<and>
   fst (llamachat_generate_response answering_env example_llm ''Why?'' []) =
     Inr (Dict [(''Response'', VStr ''echo: Why?''), (''Input'', VStr ''Why?''), (''Time'', VFloat 1)]) \<and>
   getitem (Dict [(''Response'', VStr ''echo: Why?''), (''Input'', VStr ''Why?''), (''Time'', VFloat 1)]) ''Input'' = Inr (VStr ''Why?'') \<and>
   ollama refusing_env (length (filter is_ollama_chat [])) example_llm ''Why?'' = Inl (Exception ''connection refused'') \<and>
   fst (llamachat_generate_response refusing_env example_llm ''Why?'' []) =
     Inr (Tuple [VStr sorry_message, VInt 0, VInt 0, VInt 0]) \<and>
   fst (philosopher_generate_response refusing_env example_llm ''Why?'' []) =
     Inr (Tuple [VStr sorry_message, VInt 0, VInt 0, VInt 0]) \<and>
   isl (getitem (Tuple [VStr sorry_message, VInt 0, VInt 0, VInt 0]) ''Input'') \<and>
   ss_chat_history (snd (llamachat_main refusing_env example_widgets (typed_session ''Why?''))) =
     Some [Tuple [VStr sorry_message, VInt 0, VInt 0, VInt 0]] \<and>
   fst (llamachat_display_chat_history
          (snd (llamachat_main refusing_env example_widgets (typed_session ''Why?'')))) \<noteq> None"
proof -
  have run: "ss_chat_history (snd (llamachat_main refusing_env example_widgets (typed_session ''Why?''))) =
     Some [Tuple [VStr sorry_message, VInt 0, VInt 0, VInt 0]]"
    by (simp add: run_defs refusing_env_def)
  have ok: "ollama answering_env (length (filter is_ollama_chat [])) example_llm ''Why?'' = Inr ''echo: Why?''"
    by (simp add: answering_env_def)
  have bad: "ollama refusing_env (length (filter is_ollama_chat [])) example_llm ''Why?'' = Inl (Exception ''connection refused'')"
    by (simp add: refusing_env_def)
  have t: "fst (llamachat_generate_response answering_env example_llm ''Why?'' []) =
     Inr (Dict [(''Response'', VStr ''echo: Why?''), (''Input'', VStr ''Why?''), (''Time'', VFloat 1)])"
    by (simp add: llamachat_generate_response_def time_time_def get_response_def answering_env_def)
  from C10_failure_result_is_a_tuple_and_breaks_display [of refusing_env "[]" example_llm "''Why?''" "''x''" "Exception ''connection refused''" "''Input''"
       "snd (llamachat_main refusing_env example_widgets (typed_session ''Why?''))"
       "[Tuple [VStr sorry_message, VInt 0, VInt 0, VInt 0]]"] run ok bad t
  show ?thesis by simp
qed

subsection \<open>Question file\<close>

lemma strip_Nil_iff: "strip s = [] \<longleftrightarrow> (\<forall>c\<in>set s. isspace c)"
proof
  assume "strip s = []"
  then have a: "\<forall>c\<in>set (dropWhile isspace s). isspace c"
    by (simp add: strip_def)
  have "dropWhile isspace s = []"
  proof (rule ccontr)
    assume ne: "dropWhile isspace s \<noteq> []"
    then have "\<not> isspace (hd (dropWhile isspace s))" by (rule hd_dropWhile)
    moreover from ne have "hd (dropWhile isspace s) \<in> set (dropWhile isspace s)" by simp
    ultimately show False using a by blast
  qed
  then show "\<forall>c\<in>set s. isspace c" by simp
next
  assume "\<forall>c\<in>set s. isspace c"
  then show "strip s = []" by (auto simp: strip_def dest: set_dropWhileD)
qed

lemma comprehension_eq: "concat (map (\<lambda>x. if P x then [f x] else []) xs) = map f (filter P xs)"
  by (induction xs) simp_all

lemma load_questions_Some:
  "fs path = Some content \<Longrightarrow>
   load_questions fs path =
     Inr (map strip (filter (\<lambda>l. strip l \<noteq> []) (file_lines (universal_newlines content))))"
  by (simp add: load_questions_def comprehension_eq)

lemma concat_file_lines: "concat (file_lines s) = s"
  by (induction s) (auto split: list.splits)

lemma universal_newlines_nonspace:
  "(\<forall>c\<in>set (universal_newlines s). isspace c) \<longleftrightarrow> (\<forall>c\<in>set s. isspace c)"
  by (induction s rule: universal_newlines.induct) (auto simp: isspace_def)

lemma load_questions_empty_iff:
  assumes "fs path = Some content"
  shows "load_questions fs path = Inr [] \<longleftrightarrow> (\<forall>c\<in>set content. isspace c)"
proof -
  let ?ls = "file_lines (universal_newlines content)"
  have "load_questions fs path = Inr [] \<longleftrightarrow> (\<forall>l\<in>set ?ls. strip l = [])"
    using assms by (simp add: load_questions_Some filter_empty_conv)
  also have "\<dots> \<longleftrightarrow> (\<forall>l\<in>set ?ls. \<forall>c\<in>set l. isspace c)"
    by (simp add: strip_Nil_iff)
  also have "\<dots> \<longleftrightarrow> (\<forall>c\<in>set (concat ?ls). isspace c)" by auto
  also have "\<dots> \<longleftrightarrow> (\<forall>c\<in>set (universal_newlines content). isspace c)"
    by (simp add: concat_file_lines)
  also have "\<dots> \<longleftrightarrow> (\<forall>c\<in>set content. isspace c)"
    by (rule universal_newlines_nonspace)
  finally show ?thesis .
qed

text \<open>
  Claim C7. The file with the text \<^verbatim>\<open>Q1\n\nQ2\n  \nQ3\n\<close> loads as the three
  questions \<^verbatim>\<open>Q1\<close>, \<^verbatim>\<open>Q2\<close>, \<^verbatim>\<open>Q3\<close>. For every file that opens, the result
  is the lines of the file, in file order, without the lines made of whitespace only
  (the empty line included), each remaining line stripped of the whitespace at its ends.
\<close>

theorem C7_load_questions_drops_blank_lines:
  "load_questions [''questions.txt'' \<mapsto> ''Q1'' @ [CHR 0x0A, CHR 0x0A] @ ''Q2'' @ [CHR 0x0A] @ ''  '' @ [CHR 0x0A] @ ''Q3'' @ [CHR 0x0A]]
      ''questions.txt'' = Inr [''Q1'', ''Q2'', ''Q3''] \<and>
   (fs path = Some content \<longrightarrow>
      load_questions fs path =
        Inr (map strip (filter (\<lambda>l. \<not> list_all isspace l) (file_lines (universal_newlines content)))))"
proof -
  have "(\<lambda>l. strip l \<noteq> []) = (\<lambda>l. \<not> list_all isspace l)"
    by (simp add: strip_Nil_iff list_all_iff)
  then show ?thesis
    by (simp add: load_questions_Some) (simp add: load_questions_def strip_def isspace_def)
qed

theorem C7_witness:
  "[''q.txt'' \<mapsto> ''  Why?  '' @ [CHR 0x0D, CHR 0x0A, CHR 0x09, CHR 0x0A] @ ''How?''] ''q.txt'' =
      Some (''  Why?  '' @ [CHR 0x0D, CHR 0x0A, CHR 0x09, CHR 0x0A] @ ''How?'') \<and>
   load_questions [''q.txt'' \<mapsto> ''  Why?  '' @ [CHR 0x0D, CHR 0x0A, CHR 0x09, CHR 0x0A] @ ''How?''] ''q.txt'' =
      Inr [''Why?'', ''How?'']"
  using C7_load_questions_drops_blank_lines [of "[''q.txt'' \<mapsto> ''  Why?  '' @ [CHR 0x0D, CHR 0x0A, CHR 0x09, CHR 0x0A] @ ''How?'']" "''q.txt''"
         "''  Why?  '' @ [CHR 0x0D, CHR 0x0A, CHR 0x09, CHR 0x0A] @ ''How?''"]
  by (simp add: strip_def isspace_def)

text \<open>
  Claim C9, as the code has it. For every file that opens, \<^verbatim>\<open>load_questions\<close>
  returns a list (it raises nothing) whose elements are all non-empty strings; the list
  itself is empty exactly when every character of the file is whitespace.
\<close>

theorem C9_load_questions_gives_nonempty_strings:
  "fs path = Some content \<longrightarrow>
     (\<exists>qs. load_questions fs path = Inr qs \<and> (\<forall>q\<in>set qs. q \<noteq> []) \<and>
           (qs = [] \<longleftrightarrow> (\<forall>c\<in>set content. isspace c)))"
proof
  assume f: "fs path = Some content"
  let ?qs = "map strip (filter (\<lambda>l. strip l \<noteq> []) (file_lines (universal_newlines content)))"
  have 1: "load_questions fs path = Inr ?qs" using f by (rule load_questions_Some)
  have 2: "\<forall>q\<in>set ?qs. q \<noteq> []" by auto
  have 3: "?qs = [] \<longleftrightarrow> (\<forall>c\<in>set content. isspace c)"
    using load_questions_empty_iff [of fs path content] f 1 by simp
  from 1 2 3 show "\<exists>qs. load_questions fs path = Inr qs \<and> (\<forall>q\<in>set qs. q \<noteq> []) \<and>
           (qs = [] \<longleftrightarrow> (\<forall>c\<in>set content. isspace c))" by blast
qed

theorem C9_witness:
  "[''q.txt'' \<mapsto> ''Why?'' @ [CHR 0x0A]] ''q.txt'' = Some (''Why?'' @ [CHR 0x0A]) \<and>
   (\<exists>qs. load_questions [''q.txt'' \<mapsto> ''Why?'' @ [CHR 0x0A]] ''q.txt'' = Inr qs \<and>
         (\<forall>q\<in>set qs. q \<noteq> []) \<and>
         (qs = [] \<longleftrightarrow> (\<forall>c\<in>set (''Why?'' @ [CHR 0x0A]). isspace c)))"
  using C9_load_questions_gives_nonempty_strings
          [of "[''q.txt'' \<mapsto> ''Why?'' @ [CHR 0x0A]]" "''q.txt''" "''Why?'' @ [CHR 0x0A]"]
  by simp

text \<open>The claim as stated fails on a readable file that holds only blank lines: the
  result is the empty list.\<close>

theorem C9_blank_file_counterexample:
  "load_questions [''questions.txt'' \<mapsto> [CHR 0x0A, CHR '' '', CHR '' '', CHR 0x0A]] ''questions.txt'' = Inr []"
  by (simp add: load_questions_def strip_def isspace_def)

subsection \<open>History Store\<close>

lemma cached_load_questions_frame:
  "ss_chat_history (snd (cached_load_questions e p s)) = ss_chat_history s \<and>
   ss_user_input (snd (cached_load_questions e p s)) = ss_user_input s \<and>
   trace (snd (cached_load_questions e p s)) = trace s"
  by (simp add: cached_load_questions_def split: option.splits sum.splits)

lemma llamachat_display_history:
  "ss_chat_history (snd (llamachat_display_chat_history s)) = ss_chat_history s"
  by (simp add: llamachat_display_chat_history_def case_prod_beta split: option.splits)

lemma philosopher_display_history:
  "ss_chat_history (snd (philosopher_display_chat_history s)) = ss_chat_history s"
  by (simp add: philosopher_display_chat_history_def case_prod_beta split: option.splits)

lemma at_most_one_appended:
  assumes "x = Some h \<or> (\<exists>r. x = Some (h @ [r]))"
  shows "\<exists>rs. length rs \<le> 1 \<and> x = Some (h @ rs)"
proof -
  from assms consider "x = Some (h @ [])" | r where "x = Some (h @ [r])" by auto
  then show ?thesis
  proof cases
    case 1
    then have "length ([] :: 'a list) \<le> 1 \<and> x = Some (h @ [])" by simp
    then show ?thesis by blast
  next
    case 2
    then have "length [r] \<le> 1 \<and> x = Some (h @ [r])" by simp
    then show ?thesis by blast
  qed
qed

lemma llamachat_main_chat_history:
  assumes "ss_chat_history s = Some h"
  shows "\<exists>rs. length rs \<le> 1 \<and> ss_chat_history (snd (llamachat_main_chat e w llama s)) = Some (h @ rs)"
proof (rule at_most_one_appended)
  show "ss_chat_history (snd (llamachat_main_chat e w llama s)) = Some h \<or>
        (\<exists>r. ss_chat_history (snd (llamachat_main_chat e w llama s)) = Some (h @ [r]))"
    using assms
    by (auto simp: llamachat_main_chat_def Let_def history_append_def llamachat_display_history
             split: prod.splits sum.splits option.splits)
qed

lemma sidebar_history:
  "ss_chat_history
     (let s1 = (if w_explain_tone w then s\<lparr>trace := trace s @ [ExplainTone (w_selected_tone w)]\<rparr> else s);
          s2 = (if w_clear_history w then history_clear s1 else s1)
      in (if ss_chat_history s2 = None then s2\<lparr>ss_chat_history := Some []\<rparr> else s2)) =
   Some (if w_clear_history w then [] else (case ss_chat_history s of None \<Rightarrow> [] | Some h \<Rightarrow> h))"
  by (auto simp: history_clear_def Let_def split: option.splits)

lemma llamachat_main_history:
  "\<exists>rs. length rs \<le> 1 \<and>
        ss_chat_history (snd (llamachat_main e w s)) =
          Some ((if w_clear_history w then [] else (case ss_chat_history s of None \<Rightarrow> [] | Some h \<Rightarrow> h)) @ rs)"
proof -
  let ?kept = "if w_clear_history w then [] else (case ss_chat_history s of None \<Rightarrow> [] | Some h \<Rightarrow> h)"
  define s3 where "s3 =
     (let s1 = (if w_explain_tone w then s\<lparr>trace := trace s @ [ExplainTone (w_selected_tone w)]\<rparr> else s);
          s2 = (if w_clear_history w then history_clear s1 else s1)
      in (if ss_chat_history s2 = None then s2\<lparr>ss_chat_history := Some []\<rparr> else s2))"
  have h3: "ss_chat_history s3 = Some ?kept"
    unfolding s3_def by (rule sidebar_history)
  obtain r4 s4 where c: "cached_load_questions e ''questions.txt'' s3 = (r4, s4)" by fastforce
  have h4: "ss_chat_history s4 = Some ?kept"
    using cached_load_questions_frame [of e "''questions.txt''" s3] c h3 by simp
  have main: "llamachat_main e w s =
     (case r4 of Inl ex \<Rightarrow> (Some ex, s4)
      | Inr questions \<Rightarrow>
             (case (if w_random_question w
                    then (case random_choice (w_random_draw w) questions of
                            Inl ex \<Rightarrow> Inl ex
                          | Inr random_question \<Rightarrow> Inr (s4\<lparr>ss_user_input := Some random_question\<rparr>))
                    else Inr s4) of
                Inl ex \<Rightarrow> (Some ex, s4)
              | Inr s5 \<Rightarrow> llamachat_main_chat e w (get_llama_model (w_model_name w) (w_temperature w) (w_max_tokens w)) s5))"
    using c by (simp add: llamachat_main_def s3_def Let_def)
  have nil: "\<exists>rs. length rs \<le> 1 \<and> ss_chat_history s4 = Some (?kept @ rs)"
    using h4 by (intro exI [of _ "[]"]) simp
  show ?thesis
  proof (cases r4)
    case (Inl ex)
    with main nil show ?thesis by simp
  next
    case (Inr questions)
    show ?thesis
    proof (cases "w_random_question w")
      case False
      with main Inr llamachat_main_chat_history [OF h4] show ?thesis by simp
    next
      case True
      show ?thesis
      proof (cases "random_choice (w_random_draw w) questions")
        case (Inl ex)
        with main Inr True nil show ?thesis by simp
      next
        case r: (Inr q)
        have "ss_chat_history (s4\<lparr>ss_user_input := Some q\<rparr>) = Some ?kept"
          using h4 by simp
        from llamachat_main_chat_history [OF this] main Inr True r show ?thesis by simp
      qed
    qed
  qed
qed

lemma config_panel_history:
  "ss_chat_history (snd (config_panel w s)) =
     Some (if w_clear_history w then [] else (case ss_chat_history s of None \<Rightarrow> [] | Some h \<Rightarrow> h))"
  by (auto simp: config_panel_def history_clear_def Let_def split: option.splits)

lemma get_new_question_history:
  "ss_chat_history (snd (get_new_question e w s)) = ss_chat_history s"
proof -
  have c: "ss_chat_history (snd (cached_load_questions e ''questions.txt'' s)) = ss_chat_history s"
    using cached_load_questions_frame by blast
  obtain r1 s1 where p: "cached_load_questions e ''questions.txt'' s = (r1, s1)" by fastforce
  with c have "ss_chat_history s1 = ss_chat_history s" by simp
  with p show ?thesis
    by (auto simp: get_new_question_def Let_def split: sum.splits option.splits)
qed

lemma philosopher_main_history:
  "\<exists>rs. length rs \<le> 1 \<and>
        ss_chat_history (snd (philosopher_main e w s)) =
          Some ((if w_clear_history w then [] else (case ss_chat_history s of None \<Rightarrow> [] | Some h \<Rightarrow> h)) @ rs)"
proof (rule at_most_one_appended)
  let ?kept = "if w_clear_history w then [] else (case ss_chat_history s of None \<Rightarrow> [] | Some h \<Rightarrow> h)"
  obtain llm tone s1 where cp: "config_panel w s = ((llm, tone), s1)"
    by (metis prod.exhaust)
  have h1: "ss_chat_history s1 = Some ?kept"
    using config_panel_history [of w s] cp by simp
  obtain r2 s2 where gq: "get_new_question e w s1 = (r2, s2)" by fastforce
  have h2: "ss_chat_history s2 = Some ?kept"
    using get_new_question_history [of e w s1] gq h1 by simp
  show "ss_chat_history (snd (philosopher_main e w s)) = Some ?kept \<or>
        (\<exists>r. ss_chat_history (snd (philosopher_main e w s)) = Some (?kept @ [r]))"
    using cp gq h2
    by (auto simp: philosopher_main_def Let_def history_append_def philosopher_display_history
             split: prod.splits sum.splits option.splits)
qed

subsection \<open>What the backend is asked\<close>

lemma chat_prompts_append: "chat_prompts (tr @ tr') = chat_prompts tr @ chat_prompts tr'"
  by (induction tr rule: chat_prompts.induct) simp_all

lemma filter_chat_length: "length (filter is_ollama_chat tr) = length (chat_prompts tr)"
  by (induction tr rule: chat_prompts.induct) simp_all

lemma display_entry_prompts:
  "chat_prompts (snd (display_entry ki kr kt entry tr)) = chat_prompts tr"
  by (simp add: display_entry_def Let_def chat_prompts_append split: sum.splits)

lemma display_entries_prompts:
  "chat_prompts (snd (display_entries ki kr kt es tr)) = chat_prompts tr"
proof (induction es arbitrary: tr)
  case Nil
  show ?case by simp
next
  case (Cons entry es)
  obtain r tr' where d: "display_entry ki kr kt entry tr = (r, tr')" by fastforce
  then have "chat_prompts tr' = chat_prompts tr"
    using display_entry_prompts [of ki kr kt entry tr] by simp
  with d Cons.IH [of tr'] show ?case by (cases r) simp_all
qed

lemma llamachat_display_prompts:
  "chat_prompts (trace (snd (llamachat_display_chat_history s))) = chat_prompts (trace s)"
  by (simp add: llamachat_display_chat_history_def case_prod_beta display_entries_prompts
           split: option.splits)

lemma philosopher_display_prompts:
  "chat_prompts (trace (snd (philosopher_display_chat_history s))) = chat_prompts (trace s)"
  by (simp add: philosopher_display_chat_history_def case_prod_beta display_entries_prompts
           split: option.splits)

lemma llamachat_generate_response_prompts:
  "chat_prompts (snd (llamachat_generate_response e llm p tr)) = chat_prompts tr @ [p]"
  by (cases "ollama e (length (filter is_ollama_chat tr)) llm p")
     (simp_all add: llamachat_generate_response_ok llamachat_generate_response_fail chat_prompts_append)

lemma philosopher_generate_response_prompts:
  "chat_prompts (snd (philosopher_generate_response e llm p tr)) = chat_prompts tr @ [p]"
  by (cases "ollama e (length (filter is_ollama_chat tr)) llm p")
     (simp_all add: philosopher_generate_response_ok philosopher_generate_response_fail chat_prompts_append)

lemma llamachat_generate_response_Inr:
  "\<exists>r. fst (llamachat_generate_response e llm p tr) = Inr r"
  by (cases "ollama e (length (filter is_ollama_chat tr)) llm p")
     (simp_all add: llamachat_generate_response_ok llamachat_generate_response_fail)

lemma llamachat_main_chat_prompts:
  assumes "ss_user_input s = Some q" and "ss_chat_history s = Some h"
  shows "chat_prompts (trace (snd (llamachat_main_chat e w llama s))) =
           chat_prompts (trace s) @
           (if q \<noteq> [] then [llamachat_build_prompt (Some (w_selected_tone w)) q, q]
            else [llamachat_build_prompt (Some (w_selected_tone w)) q])"
proof -
  let ?p = "llamachat_build_prompt (Some (w_selected_tone w)) q"
  let ?tr7 = "trace s @ [SidebarTime]"
  obtain r8 tr8 where g1: "llamachat_generate_response e llama ?p ?tr7 = (Inr r8, tr8)"
    using llamachat_generate_response_Inr [of e llama ?p ?tr7]
    by (metis prod.collapse)
  have p8: "chat_prompts tr8 = chat_prompts (trace s) @ [?p]"
    using llamachat_generate_response_prompts [of e llama ?p ?tr7] g1
    by (simp add: chat_prompts_append)
  obtain r9 tr9 where g2: "llamachat_generate_response e llama q tr8 = (Inr r9, tr9)"
    using llamachat_generate_response_Inr [of e llama q tr8]
    by (metis prod.collapse)
  have p9: "chat_prompts tr9 = chat_prompts (trace s) @ [?p, q]"
    using llamachat_generate_response_prompts [of e llama q tr8] g2 p8 by simp
  show ?thesis
    using assms g1 g2 p8 p9
    by (simp add: llamachat_main_chat_def Let_def history_append_def llamachat_display_prompts)
qed

lemma llamachat_main_chat_record:
  assumes "ss_user_input s = Some q" and "q \<noteq> []" and "ss_chat_history s = Some h"
  shows "\<exists>r. fst (llamachat_generate_response e llama q
                 (snd (llamachat_generate_response e llama
                         (llamachat_build_prompt (Some (w_selected_tone w)) q)
                         (trace s @ [SidebarTime])))) = Inr r \<and>
             ss_chat_history (snd (llamachat_main_chat e w llama s)) = Some (h @ [r])"
proof -
  let ?p = "llamachat_build_prompt (Some (w_selected_tone w)) q"
  let ?tr7 = "trace s @ [SidebarTime]"
  obtain r8 tr8 where g1: "llamachat_generate_response e llama ?p ?tr7 = (Inr r8, tr8)"
    using llamachat_generate_response_Inr [of e llama ?p ?tr7]
    by (metis prod.collapse)
  obtain r9 tr9 where g2: "llamachat_generate_response e llama q tr8 = (Inr r9, tr9)"
    using llamachat_generate_response_Inr [of e llama q tr8]
    by (metis prod.collapse)
  have "ss_chat_history (snd (llamachat_main_chat e w llama s)) = Some (h @ [r9])"
    using assms g1 g2
    by (simp add: llamachat_main_chat_def Let_def history_append_def llamachat_display_history)
  with g1 g2 show ?thesis by simp
qed

lemma get_new_question_typed:
  assumes "\<not> w_random_question w" and "ss_user_input s = Some q"
  shows "fst (get_new_question e w s) = Inr q \<and>
         trace (snd (get_new_question e w s)) = trace s \<and>
         ss_chat_history (snd (get_new_question e w s)) = ss_chat_history s"
proof -
  obtain r1 s1 where p: "cached_load_questions e ''questions.txt'' s = (r1, s1)" by fastforce
  have f: "ss_user_input s1 = Some q \<and> trace s1 = trace s \<and> ss_chat_history s1 = ss_chat_history s"
    using cached_load_questions_frame [of e "''questions.txt''" s] p assms by simp
  have ok: "files e ''questions.txt'' \<noteq> None \<Longrightarrow> \<exists>qs. r1 = Inr qs"
    using p by (auto simp: cached_load_questions_def load_questions_def split: option.splits)
  show ?thesis
  proof (cases "files e ''questions.txt'' = None")
    case True
    with assms show ?thesis by (simp add: get_new_question_def Let_def)
  next
    case False
    with ok obtain qs where "r1 = Inr qs" by blast
    with False p f assms show ?thesis by (simp add: get_new_question_def Let_def)
  qed
qed

lemma config_panel_frame:
  "fst (config_panel w s) = (get_llama_model (w_model_name w) (w_temperature w) (w_max_tokens w), w_selected_tone w) \<and>
   ss_user_input (snd (config_panel w s)) = ss_user_input s \<and>
   chat_prompts (trace (snd (config_panel w s))) = chat_prompts (trace s) \<and>
   length (filter is_clock_read (trace (snd (config_panel w s)))) = length (filter is_clock_read (trace s))"
  by (simp add: config_panel_def Let_def history_clear_def chat_prompts_append)

text \<open>The classification flow of \<^verbatim>\<open>sl_llm_philosopher.py\<close> when both backend
  calls return: the classification question and then the built prompt are sent, and one
  record is appended that holds the answer under \<^verbatim>\<open>response\<close> and the classification
  under \<^verbatim>\<open>class\<close>.\<close>

lemma philosopher_main_success:
  assumes typed: "\<not> w_random_question w" "ss_user_input s = Some q" "q \<noteq> []"
    and llm: "llm = get_llama_model (w_model_name w) (w_temperature w) (w_max_tokens w)"
    and n: "n = length (chat_prompts (trace s))"
    and cq: "cq = ''Given the question: '' @ q @
                 '', what is the most accurate classification? Choose from the following categories: '' @
                 py_repr_list CLASSES @ ''.''"
    and first: "ollama e n llm cq = Inr cls"
    and second: "ollama e (Suc n) llm (philosopher_build_prompt (Some (w_selected_tone w)) q) = Inr ans"
  shows "chat_prompts (trace (snd (philosopher_main e w s))) =
           chat_prompts (trace s) @ [cq, philosopher_build_prompt (Some (w_selected_tone w)) q] \<and>
         (\<exists>t. ss_chat_history (snd (philosopher_main e w s)) =
           Some ((if w_clear_history w then [] else (case ss_chat_history s of None \<Rightarrow> [] | Some h \<Rightarrow> h)) @
                 [Dict [(''response'', VStr ans),
                        (''input'', VStr (philosopher_build_prompt (Some (w_selected_tone w)) q)),
                        (''time'', VFloat t), (''class'', VStr cls)]]))"
proof -
  let ?kept = "if w_clear_history w then [] else (case ss_chat_history s of None \<Rightarrow> [] | Some h \<Rightarrow> h)"
  let ?p = "philosopher_build_prompt (Some (w_selected_tone w)) q"
  obtain s1 where cp: "config_panel w s = ((llm, w_selected_tone w), s1)"
    using config_panel_frame [of w s] llm by (metis prod.collapse)
  have f1: "ss_user_input s1 = Some q" "chat_prompts (trace s1) = chat_prompts (trace s)"
    "ss_chat_history s1 = Some ?kept"
    using config_panel_frame [of w s] config_panel_history [of w s] cp typed by simp_all
  obtain s2 where gq: "get_new_question e w s1 = (Inr q, s2)"
    using get_new_question_typed [of w s1 q e] typed f1 by (metis prod.collapse)
  have f2: "trace s2 = trace s1" "ss_chat_history s2 = Some ?kept"
    using get_new_question_typed [of w s1 q e] typed f1 gq by simp_all
  have n2: "length (filter is_ollama_chat (trace s2)) = n"
    using f1 f2 n by (simp add: filter_chat_length)
  let ?c0 = "length (filter is_clock_read (trace s2))"
  let ?tr3 = "trace s2 @ [ClockRead (clock e ?c0), OllamaChat llm cq, ClockRead (clock e (Suc ?c0))]"
  have g1: "philosopher_generate_response e llm cq (trace s2) =
     (Inr (Dict [(''response'', VStr cls), (''input'', VStr cq),
                 (''time'', VFloat (clock e (Suc ?c0) - clock e ?c0))]), ?tr3)"
    using first n2 by (simp add: philosopher_generate_response_ok)
  have n3: "length (filter is_ollama_chat ?tr3) = Suc n" using n2 by simp
  let ?c3 = "length (filter is_clock_read ?tr3)"
  let ?tr4 = "?tr3 @ [ClockRead (clock e ?c3), OllamaChat llm ?p, ClockRead (clock e (Suc ?c3))]"
  have g2: "philosopher_generate_response e llm ?p ?tr3 =
     (Inr (Dict [(''response'', VStr ans), (''input'', VStr ?p),
                 (''time'', VFloat (clock e (Suc ?c3) - clock e ?c3))]), ?tr4)"
    using second n3 philosopher_generate_response_ok [of e ?tr3 llm ?p ans] by simp
  have run: "philosopher_main e w s =
     philosopher_display_chat_history
       (s2\<lparr>trace := ?tr4,
           ss_chat_history := Some (?kept @ [Dict [(''response'', VStr ans), (''input'', VStr ?p),
                 (''time'', VFloat (clock e (Suc ?c3) - clock e ?c3)), (''class'', VStr cls)]])\<rparr>)"
    using cp gq g1 g2 typed f2 cq
    by (simp add: philosopher_main_def Let_def history_append_def)
  have "chat_prompts (trace (snd (philosopher_main e w s))) = chat_prompts ?tr4"
    unfolding run by (simp add: philosopher_display_prompts)
  also have "\<dots> = chat_prompts (trace s) @ [cq, ?p]"
    using f1 f2 by (simp add: chat_prompts_append)
  finally have a: "chat_prompts (trace (snd (philosopher_main e w s))) = chat_prompts (trace s) @ [cq, ?p]" .
  have b: "ss_chat_history (snd (philosopher_main e w s)) =
      Some (?kept @ [Dict [(''response'', VStr ans), (''input'', VStr ?p),
                 (''time'', VFloat (clock e (Suc ?c3) - clock e ?c3)), (''class'', VStr cls)]])"
    unfolding run by (simp add: philosopher_display_history)
  from a b show ?thesis by blast
qed

subsection \<open>The two scripts at work\<close>

text \<open>
  Claim C4, where the code departs from it. With a backend that refuses the
  classification call, \<^verbatim>\<open>main\<close> of \<^verbatim>\<open>sl_llm_philosopher.py\<close> makes one backend
  call, raises \<^verbatim>\<open>TypeError\<close> at \<^verbatim>\<open>result['response']\<close> and appends nothing. With
  a backend that classifies and then refuses the answer call, it makes the two calls,
  raises \<^verbatim>\<open>TypeError\<close> at the assignment of the \<^verbatim>\<open>class\<close> key and appends nothing.
\<close>

theorem C4_failed_call_aborts_classification_flow:
  "fst (philosopher_main refusing_env example_widgets (typed_session ''Why?'')) =
     Some (TypeError ''tuple indices must be integers or slices, not str'') \<and>
   chat_prompts (trace (snd (philosopher_main refusing_env example_widgets (typed_session ''Why?'')))) =
     [''Given the question: Why?, what is the most accurate classification? Choose from the following categories: '' @
      py_repr_list CLASSES @ ''.''] \<and>
   ss_chat_history (snd (philosopher_main refusing_env example_widgets (typed_session ''Why?''))) = Some [] \<and>
   fst (philosopher_main answer_refusing_env example_widgets (typed_session ''Why?'')) =
     Some (TypeError ''tuple object does not support item assignment'') \<and>
   length (chat_prompts (trace (snd (philosopher_main answer_refusing_env example_widgets (typed_session ''Why?''))))) = 2 \<and>
   ss_chat_history (snd (philosopher_main answer_refusing_env example_widgets (typed_session ''Why?''))) = Some []"
  by (simp add: run_defs refusing_env_def answer_refusing_env_def)

text \<open>
  Claim C5, where the code departs from it. \<^verbatim>\<open>main\<close> of \<^verbatim>\<open>sl_llamachat.py\<close> sends
  the built prompt first and drops that result; the call whose result it appends to the
  history is sent the question as typed. For the tone \<^verbatim>\<open>Socratic\<close> and the question
  \<^verbatim>\<open>Why?\<close> the backend receives the built prompt and then \<^verbatim>\<open>Why?\<close>, and the stored
  record is the answer to \<^verbatim>\<open>Why?\<close>.
\<close>

theorem C5_llamachat_answers_raw_question:
  "chat_prompts (trace (snd (llamachat_main answering_env example_widgets (typed_session ''Why?'')))) =
     [llamachat_build_prompt (Some ''Socratic'') ''Why?'', ''Why?''] \<and>
   ss_chat_history (snd (llamachat_main answering_env example_widgets (typed_session ''Why?''))) =
     Some [Dict [(''Response'', VStr ''echo: Why?''), (''Input'', VStr ''Why?''), (''Time'', VFloat 1)]] \<and>
   llamachat_build_prompt (Some ''Socratic'') ''Why?'' \<noteq> ''Why?''"
  by (simp add: run_defs answering_env_def llamachat_build_prompt_def)

text \<open>
  Claim C6. Appending \<open>a\<close> and then \<open>b\<close> to a history \<open>h\<close> leaves \<open>h\<close> followed by
  \<open>a\<close> and \<open>b\<close>; clearing leaves the empty history, whatever it held. A run of
  \<^verbatim>\<open>main\<close> of either script changes the history only so: it keeps the earlier
  records in their order, or none of them when \<^verbatim>\<open>Clear History\<close> was clicked, and adds
  at most one record at the end.
\<close>

theorem C6_history_keeps_order_and_clear_empties:
  "(ss_chat_history s = Some h \<longrightarrow>
      (\<exists>s1 s2. history_append a s = Inr s1 \<and> history_append b s1 = Inr s2 \<and>
               ss_chat_history s2 = Some (h @ [a, b]))) \<and>
   ss_chat_history (history_clear s) = Some [] \<and>
   (\<exists>rs. length rs \<le> 1 \<and>
         ss_chat_history (snd (llamachat_main e w s)) =
           Some ((if w_clear_history w then []
                  else (case ss_chat_history s of None \<Rightarrow> [] | Some h' \<Rightarrow> h')) @ rs)) \<and>
   (\<exists>rs. length rs \<le> 1 \<and>
         ss_chat_history (snd (philosopher_main e w s)) =
           Some ((if w_clear_history w then []
                  else (case ss_chat_history s of None \<Rightarrow> [] | Some h' \<Rightarrow> h')) @ rs))"
proof (intro conjI impI)
  assume "ss_chat_history s = Some h"
  then show "\<exists>s1 s2. history_append a s = Inr s1 \<and> history_append b s1 = Inr s2 \<and>
               ss_chat_history s2 = Some (h @ [a, b])"
    by (simp add: history_append_def)
next
  show "ss_chat_history (history_clear s) = Some []"
    by (simp add: history_clear_def)
next
  show "\<exists>rs. length rs \<le> 1 \<and>
         ss_chat_history (snd (llamachat_main e w s)) =
           Some ((if w_clear_history w then []
                  else (case ss_chat_history s of None \<Rightarrow> [] | Some h' \<Rightarrow> h')) @ rs)"
    by (rule llamachat_main_history)
next
  show "\<exists>rs. length rs \<le> 1 \<and>
         ss_chat_history (snd (philosopher_main e w s)) =
           Some ((if w_clear_history w then []
                  else (case ss_chat_history s of None \<Rightarrow> [] | Some h' \<Rightarrow> h')) @ rs)"
    by (rule philosopher_main_history)
qed

lemma first_run_history:
  "ss_chat_history first_run =
     Some [Dict [(''Response'', VStr ''echo: A?''), (''Input'', VStr ''A?''), (''Time'', VFloat 1)]]"
  by (simp add: first_run_def run_defs answering_env_def)

lemma second_run_history:
  "ss_chat_history second_run =
     Some [Dict [(''Response'', VStr ''echo: A?''), (''Input'', VStr ''A?''), (''Time'', VFloat 1)],
           Dict [(''Response'', VStr ''echo: B?''), (''Input'', VStr ''B?''), (''Time'', VFloat 1)]]"
  by (simp add: second_run_def first_run_def run_defs answering_env_def)

lemma cleared_run_history:
  "ss_chat_history (snd (llamachat_main answering_env (example_widgets\<lparr>w_clear_history := True\<rparr>)
      (second_run\<lparr>ss_user_input := Some []\<rparr>))) = Some []"
  by (simp add: second_run_def first_run_def run_defs answering_env_def)

theorem C6_witness:
  "ss_chat_history first_run =
     Some [Dict [(''Response'', VStr ''echo: A?''), (''Input'', VStr ''A?''), (''Time'', VFloat 1)]] \<and>
   (\<exists>s1 s2. history_append (Tuple [VInt 1]) first_run = Inr s1 \<and>
            history_append (Tuple [VInt 2]) s1 = Inr s2 \<and>
            ss_chat_history s2 =
              Some [Dict [(''Response'', VStr ''echo: A?''), (''Input'', VStr ''A?''), (''Time'', VFloat 1)],
                    Tuple [VInt 1], Tuple [VInt 2]]) \<and>
   ss_chat_history (history_clear first_run) = Some [] \<and>
   ss_chat_history second_run =
     Some [Dict [(''Response'', VStr ''echo: A?''), (''Input'', VStr ''A?''), (''Time'', VFloat 1)],
           Dict [(''Response'', VStr ''echo: B?''), (''Input'', VStr ''B?''), (''Time'', VFloat 1)]] \<and>
   ss_chat_history (snd (llamachat_main answering_env (example_widgets\<lparr>w_clear_history := True\<rparr>)
      (second_run\<lparr>ss_user_input := Some []\<rparr>))) = Some []"
  using C6_history_keeps_order_and_clear_empties [of first_run "[Dict [(''Response'', VStr ''echo: A?''), (''Input'', VStr ''A?''), (''Time'', VFloat 1)]]"
              "Tuple [VInt 1]" "Tuple [VInt 2]"]
        first_run_history second_run_history cleared_run_history
  by simp

end
